theory Spec2Isabelle
  imports Complex_Main "HOL-Library.Sublist"
begin

section \<open>Strings\<close>

text \<open>
  The handler of \<^verbatim>\<open>supabase/functions/vector-search/index.ts\<close> works on JavaScript
  strings. They are modelled as \<^typ>\<open>string\<close>, a list of 8-bit characters, so the
  model covers the code units \<open>0x00\<close> to \<open>0xFF\<close>. In that range the characters that
  \<^verbatim>\<open>String.prototype.trim\<close> and the regular-expression class \<^verbatim>\<open>\s\<close> treat as white
  space are TAB, LF, VT, FF, CR, SPACE and NBSP.
\<close>

definition LF :: char where
  "LF = CHR 0x0A"

definition CR :: char where
  "CR = CHR 0x0D"

definition SP :: char where
  "SP = CHR 0x20"

definition js_whitespace :: "char \<Rightarrow> bool" where
  "js_whitespace c = (c \<in> set [CHR 0x09, CHR 0x0A, CHR 0x0B, CHR 0x0C, CHR 0x0D, CHR 0x20, CHR 0xA0])"

text \<open>\<^verbatim>\<open>s.trim()\<close>: white space removed from both ends.\<close>

definition trim :: "string \<Rightarrow> string" where
  "trim s = rev (dropWhile js_whitespace (rev (dropWhile js_whitespace s)))"

text \<open>\<^verbatim>\<open>s.replaceAll("\n", " ")\<close>: the pattern is one character long, so every
  occurrence is one character and the replacement works character by character.\<close>

definition replaceAll_LF_SP :: "string \<Rightarrow> string" where
  "replaceAll_LF_SP s = map (\<lambda>c. if c = LF then SP else c) s"

text \<open>Line 52: \<^verbatim>\<open>const sanitizedQuery = query.trim().replaceAll("\n", " ")\<close>.\<close>

definition sanitizedQuery :: "string \<Rightarrow> string" where
  "sanitizedQuery query = replaceAll_LF_SP (trim query)"

section \<open>Values, errors and document sections\<close>

text \<open>
  The rows returned by the store and the payloads of the providers are untyped JSON as
  far as the handler is concerned. \<open>JUndefined\<close> is what reading a missing property
  gives. Numbers are rationals (a JSON payload holds no NaN and no infinity); the
  handler never computes with them.
\<close>

datatype jsval =
    JUndefined
  | JNull
  | JBool bool
  | JNum rat
  | JStr string
  | JArr "jsval list"
  | JObj "(string \<times> jsval) list"

text \<open>JavaScript truthiness, as tested by \<^verbatim>\<open>!x\<close>, \<^verbatim>\<open>x || y\<close> and \<^verbatim>\<open>if (x)\<close>.\<close>

fun truthy :: "jsval \<Rightarrow> bool" where
  "truthy JUndefined = False"
| "truthy JNull = False"
| "truthy (JBool b) = b"
| "truthy (JNum n) = (n \<noteq> 0)"
| "truthy (JStr s) = (s \<noteq> [])"
| "truthy (JArr _) = True"
| "truthy (JObj _) = True"

text \<open>
  The response of the embedding service as the provider client returns it: the HTTP
  status and the \<^verbatim>\<open>embedding\<close> vectors of \<^verbatim>\<open>data.data\<close>.
\<close>

record embeddingResponse =
  embedding_status :: int
  embedding_data :: "rat list list"

text \<open>
  Modelled from the spec: the error classes \<^verbatim>\<open>UserError\<close> and \<^verbatim>\<open>ApplicationError\<close> of
  \<^verbatim>\<open>_utils/errors.ts\<close>, each carrying a message and a structured-data payload
  (\<open>JUndefined\<close> when the constructor gets none). The payload of an
  \<^verbatim>\<open>ApplicationError\<close> is the raw response of the embedding service or a JSON value.
  \<open>OtherError\<close> stands for every other thrown value: a \<^verbatim>\<open>TypeError\<close> of the
  runtime, or whatever a rejected call of a collaborator throws.
\<close>

datatype payload =
    EmbeddingResponse embeddingResponse
  | JsonPayload jsval

datatype error =
    UserError string jsval
  | ApplicationError string payload
  | OtherError string

text \<open>A row of \<^verbatim>\<open>match_page_sections\<close>; the handler reads its \<^verbatim>\<open>content\<close> only.\<close>

record pageSection =
  content :: jsval

section \<open>Context assembly (lines 88 to 103)\<close>

definition max_tokens_context :: nat where
  "max_tokens_context = 1500"

definition separator :: string where
  "separator = ''\<newline>---\<newline>''"

text \<open>\<^verbatim>\<open>pageSection.content as string || ""\<close>: the cast does nothing at run time.\<close>

definition currentDocument :: "pageSection \<Rightarrow> jsval" where
  "currentDocument p = (if truthy (content p) then content p else JStr [])"

text \<open>\<^verbatim>\<open>`${currentDocument.trim()}\n---\n`\<close>\<close>

definition currentDocumentText :: "string \<Rightarrow> string" where
  "currentDocumentText doc = trim doc @ separator"

text \<open>
  The loop, with the two variables \<^verbatim>\<open>tokenCount\<close> and \<^verbatim>\<open>contextText\<close> passed along.
  \<open>encode doc\<close> is the \<^verbatim>\<open>text\<close> array of \<^verbatim>\<open>tokenizer.encode(doc)\<close>; the tokenizer is
  a library outside the repository and a parameter here. A truthy content that is not
  a string has no \<^verbatim>\<open>trim\<close> method: the iteration throws a \<^verbatim>\<open>TypeError\<close>.
\<close>

fun context_loop ::
  "(string \<Rightarrow> string list) \<Rightarrow> pageSection list \<Rightarrow> nat \<Rightarrow> string \<Rightarrow> error + (nat \<times> string)"
where
  "context_loop encode [] tokenCount contextText = Inr (tokenCount, contextText)"
| "context_loop encode (p # ps) tokenCount contextText =
     (case currentDocument p of
        JStr doc \<Rightarrow>
          (let currentDocumentTokenCount = length (encode doc);
               tokenCount' = tokenCount + currentDocumentTokenCount
           in if tokenCount' \<ge> max_tokens_context then Inr (tokenCount', contextText)
              else context_loop encode ps tokenCount' (contextText @ currentDocumentText doc))
      | _ \<Rightarrow> Inl (OtherError ''TypeError''))"

definition assemble_context ::
  "(string \<Rightarrow> string list) \<Rightarrow> pageSection list \<Rightarrow> error + string"
where
  "assemble_context encode pageSections =
     (case context_loop encode pageSections 0 [] of
        Inl e \<Rightarrow> Inl e
      | Inr (tokenCount, contextText) \<Rightarrow> Inr contextText)"

subsection \<open>The specification of the assembled context\<close>

text \<open>
  The data model gives every section a string content; the loop also accepts a falsy
  one. \<open>current_text\<close> is the text such a section stands for.
\<close>

definition well_typed :: "pageSection \<Rightarrow> bool" where
  "well_typed p = (case currentDocument p of JStr _ \<Rightarrow> True | _ \<Rightarrow> False)"

definition current_text :: "pageSection \<Rightarrow> string" where
  "current_text p = (case currentDocument p of JStr doc \<Rightarrow> doc | _ \<Rightarrow> [])"

definition section_tokens :: "(string \<Rightarrow> string list) \<Rightarrow> pageSection \<Rightarrow> nat" where
  "section_tokens encode p = length (encode (current_text p))"

text \<open>The cumulative token count of the first \<open>k\<close> sections.\<close>

definition cumulative :: "(string \<Rightarrow> string list) \<Rightarrow> pageSection list \<Rightarrow> nat \<Rightarrow> nat" where
  "cumulative encode ps k = sum_list (map (section_tokens encode) (take k ps))"

text \<open>The prefix of length \<open>k\<close> stays under the cap: the count is under 1500 after each
  of its sections.\<close>

definition stays_under :: "(string \<Rightarrow> string list) \<Rightarrow> pageSection list \<Rightarrow> nat \<Rightarrow> bool" where
  "stays_under encode ps k = list_all (\<lambda>j. cumulative encode ps j < max_tokens_context) [1..<Suc k]"

text \<open>The lengths of the prefixes that stay under the cap; 0 is always one of them.\<close>

definition prefix_lengths_under :: "(string \<Rightarrow> string list) \<Rightarrow> pageSection list \<Rightarrow> nat list" where
  "prefix_lengths_under encode ps = filter (stays_under encode ps) [0..<Suc (length ps)]"

definition longest_prefix_under :: "(string \<Rightarrow> string list) \<Rightarrow> pageSection list \<Rightarrow> pageSection list" where
  "longest_prefix_under encode ps = take (Max (set (prefix_lengths_under encode ps))) ps"

definition spec_context :: "(string \<Rightarrow> string list) \<Rightarrow> pageSection list \<Rightarrow> string" where
  "spec_context encode ps =
     concat (map (\<lambda>p. currentDocumentText (current_text p)) (longest_prefix_under encode ps))"

text \<open>
  The number of sections the loop appends when it starts with the running count \<open>tc\<close>:
  a reading of the loop that forgets the text, used in the proofs.
\<close>

fun included :: "(string \<Rightarrow> string list) \<Rightarrow> pageSection list \<Rightarrow> nat \<Rightarrow> nat" where
  "included encode [] tc = 0"
| "included encode (p # ps) tc =
     (if tc + section_tokens encode p \<ge> max_tokens_context then 0
      else Suc (included encode ps (tc + section_tokens encode p)))"

section \<open>The template tags \<^verbatim>\<open>oneLine\<close> and \<^verbatim>\<open>codeBlock\<close>\<close>

text \<open>
  The prompt is written with two tags of the \<^verbatim>\<open>common-tags\<close> library, which is not
  part of the repository. They are modelled after the library's transformers.

  \<^verbatim>\<open>oneLine\<close> replaces every match of \<^verbatim>\<open>/(?:\n(?:\s*))+/g\<close>, a newline with all the
  white space after it, by one space, and trims the result.
\<close>

definition horizontal_space :: "char \<Rightarrow> bool" where
  "horizontal_space c = (js_whitespace c \<and> c \<noteq> LF)"

definition line_terminator :: "char \<Rightarrow> bool" where
  "line_terminator c = (c = LF \<or> c = CR)"

function oneLine_replace :: "string \<Rightarrow> string" where
  "oneLine_replace [] = []"
| "oneLine_replace (c # cs) =
     (if c = LF then SP # oneLine_replace (dropWhile js_whitespace cs)
      else c # oneLine_replace cs)"
  by pat_completeness auto
termination
  by (relation "measure length") (auto simp: less_Suc_eq_le length_dropWhile_le)

definition oneLine :: "string \<Rightarrow> string" where
  "oneLine s = trim (oneLine_replace s)"

text \<open>
  \<^verbatim>\<open>codeBlock\<close> first treats each substitution: one that contains a newline is split
  at the newlines and joined again with the indentation the result has reached, the
  match of \<^verbatim>\<open>/(\n?[^\S\n]+)$/\<close> on the result so far, or with one space when there is
  no match.
\<close>

fun split_on :: "char \<Rightarrow> string \<Rightarrow> string list" where
  "split_on d [] = [[]]"
| "split_on d (c # cs) =
     (if c = d then [] # split_on d cs
      else case split_on d cs of l # ls \<Rightarrow> (c # l) # ls | [] \<Rightarrow> [[c]])"

fun join :: "string \<Rightarrow> string list \<Rightarrow> string" where
  "join sep [] = []"
| "join sep [l] = l"
| "join sep (l # ls) = l @ sep @ join sep ls"

definition trailing_indent :: "string \<Rightarrow> string option" where
  "trailing_indent resultSoFar =
     (let w = takeWhile horizontal_space (rev resultSoFar);
          before = dropWhile horizontal_space (rev resultSoFar)
      in if w = [] then None
         else Some ((case before of c # _ \<Rightarrow> if c = LF then [LF] else [] | [] \<Rightarrow> []) @ rev w))"

definition inlineArray :: "string \<Rightarrow> string \<Rightarrow> string" where
  "inlineArray substitution resultSoFar =
     (if LF \<in> set substitution
      then join (case trailing_indent resultSoFar of Some indent \<Rightarrow> indent | None \<Rightarrow> [SP])
             (split_on LF substitution)
      else substitution)"

text \<open>The literal parts and the substitutions are put together from left to right;
  a template with \<open>n\<close> substitutions has \<open>n + 1\<close> literal parts.\<close>

fun processSubstitutions :: "string \<Rightarrow> (string \<times> string) list \<Rightarrow> string" where
  "processSubstitutions resultSoFar [] = resultSoFar"
| "processSubstitutions resultSoFar ((substitution, remainingPart) # rest) =
     processSubstitutions (resultSoFar @ inlineArray substitution resultSoFar @ remainingPart) rest"

text \<open>
  Then the common indentation is removed. Its width is the least length among the
  matches of \<^verbatim>\<open>/^[^\S\n]*(?=\S)/gm\<close>: the white space at the start of a line (after
  LF or CR) that a character other than white space follows. \<open>indent_matches\<close> scans
  as the regular expression does: a match consumes its characters.
\<close>

function indent_matches :: "bool \<Rightarrow> string \<Rightarrow> nat list" where
  "indent_matches bol [] = []"
| "indent_matches bol (c # cs) =
     (if bol then
        (let run = takeWhile horizontal_space (c # cs);
             rest = dropWhile horizontal_space (c # cs)
         in case rest of
              [] \<Rightarrow> indent_matches (line_terminator c) cs
            | d # _ \<Rightarrow>
                if js_whitespace d then indent_matches (line_terminator c) cs
                else if run = [] then 0 # indent_matches (line_terminator c) cs
                else length run # indent_matches (line_terminator (last run)) rest)
      else indent_matches (line_terminator c) cs)"
  by pat_completeness auto
termination
  by (relation "measure (\<lambda>(b, s). length s)")
    (auto simp: less_Suc_eq_le length_dropWhile_le split: if_splits)

text \<open>\<^verbatim>\<open>/^.{n}/gm\<close> replaced by nothing: every line (ended by LF or CR) of at least
  \<open>n\<close> characters loses its first \<open>n\<close>. \<open>lines_of\<close> cuts a text into its lines,
  each with the terminator that ends it.\<close>

fun lines_of :: "string \<Rightarrow> (string \<times> char option) list" where
  "lines_of [] = [([], None)]"
| "lines_of (c # cs) =
     (if line_terminator c then ([], Some c) # lines_of cs
      else case lines_of cs of
             (l, t) # ls \<Rightarrow> (c # l, t) # ls
           | [] \<Rightarrow> [([c], None)])"

definition strip_line :: "nat \<Rightarrow> string \<times> char option \<Rightarrow> string" where
  "strip_line n lt =
     (if n \<le> length (fst lt) then drop n (fst lt) else fst lt)
     @ (case snd lt of None \<Rightarrow> [] | Some t \<Rightarrow> [t])"

definition strip_lines :: "nat \<Rightarrow> string \<Rightarrow> string" where
  "strip_lines n s = concat (map (strip_line n) (lines_of s))"

definition stripIndent :: "string \<Rightarrow> string" where
  "stripIndent endResult =
     (case indent_matches True endResult of
        [] \<Rightarrow> endResult
      | m # ms \<Rightarrow>
          (let indent = Min (set (m # ms))
           in if indent = 0 then endResult else strip_lines indent endResult))"

text \<open>The tag: substitutions, indentation removed, result trimmed. The first
  argument is the literal part before the first substitution; each substitution comes
  with the literal part after it.\<close>

definition codeBlock :: "string \<Rightarrow> (string \<times> string) list \<Rightarrow> string" where
  "codeBlock first_part rest = trim (stripIndent (processSubstitutions first_part rest))"

section \<open>The prompt (lines 106 to 124)\<close>

definition instructions :: string where
  \<open>instructions = oneLine
     (''\<newline>        You are a very enthusiastic support representative who loves''
    @ ''\<newline>        to help people! Given the following sections from the product''
    @ ''\<newline>        documentation, answer the question using only that information,''
    @ ''\<newline>        outputted in markdown format. If you are unsure and the answer''
    @ ''\<newline>        is not explicitly written in the documentation, say''
    @ ''\<newline>        "Sorry, I don't know how to help with that."''
    @ ''\<newline>      '')\<close>

text \<open>The template with its three substitutions. The handler calls it with the
  assembled context and \<^verbatim>\<open>sanitizedQuery\<close>.\<close>

definition prompt :: "string \<Rightarrow> string \<Rightarrow> string" where
  \<open>prompt contextText question = codeBlock
     ''\<newline>      ''
     [(instructions,
       ''\<newline>\<newline>      Context sections:\<newline>      ''),
      (contextText,
       ''\<newline>\<newline>      Question: """\<newline>      ''),
      (question,
       ''\<newline>      """\<newline>\<newline>      Answer as markdown (including related code snippets if available):\<newline>    '')]\<close>

section \<open>The layout of the prompt\<close>







definition strip1 :: "nat \<Rightarrow> string \<Rightarrow> string" where
  "strip1 n l = (if n \<le> length l then drop n l else l)"


section \<open>The request handler (lines 38 to 187)\<close>

subsection \<open>Requests, responses and the collaborators\<close>

text \<open>A request: its method and the decoded parameters of the query string of its
  URL, in order. \<^verbatim>\<open>searchParams.get\<close> returns the first value of a name.\<close>

record request =
  req_method :: string
  searchParams :: "(string \<times> string) list"

datatype response_body =
    TextBody string
  | JsonBody jsval
  | StreamBody string

text \<open>A response: \<open>JsonBody v\<close> is the body \<^verbatim>\<open>Response.json(v, ...)\<close> serialises, in which
  a property whose value is \<open>JUndefined\<close> does not appear; \<open>StreamBody\<close> carries the
  bytes of the provider's stream. The headers are those the handler passes.\<close>

record response =
  status :: nat
  headers :: "(string \<times> string) list"
  body :: response_body

record moderationResult =
  flagged :: bool
  categories :: jsval

record matchParams =
  embedding :: "rat list"
  match_threshold :: rat
  match_count :: nat
  min_content_length :: nat

text \<open>\<^verbatim>\<open>{ error: matchError, data: pageSections }\<close>, the result of the store's procedure;
  \<open>None\<close> is a \<^verbatim>\<open>null\<close> data.\<close>

record rpcResult =
  matchError :: jsval
  pageSections :: "pageSection list option"

record completionOptions =
  messages :: "(string \<times> string) list"
  model :: string
  max_tokens :: nat
  temperature :: nat
  stream :: bool

text \<open>The response of \<^verbatim>\<open>fetch\<close>: \<open>response_json\<close> is what \<^verbatim>\<open>response.json()\<close> resolves
  to, \<open>None\<close> when the body is not JSON.\<close>

record fetchResponse =
  ok :: bool
  response_stream :: string
  response_json :: "jsval option"

text \<open>
  The configuration read at start-up and the collaborators, each a function from its
  request to its response; \<open>None\<close> is a call that rejects. \<open>tokenizer_encode e doc\<close> is the
  \<^verbatim>\<open>text\<close> array of \<^verbatim>\<open>tokenizer.encode(doc)\<close>.
\<close>

record env =
  OPENAI_API_KEY :: string
  OPENAI_EMBEDDINGS_MODEL :: string
  OPENAI_COMPLETIONS_MODEL :: string
  OPENAI_COMPLETIONS_ENDPOINT :: string
  createModeration :: "string \<Rightarrow> moderationResult list option"
  createEmbedding :: "string \<Rightarrow> string \<Rightarrow> embeddingResponse option"
  rpc :: "string \<Rightarrow> matchParams \<Rightarrow> rpcResult option"
  tokenizer_encode :: "string \<Rightarrow> string list"
  fetch :: "string \<Rightarrow> (string \<times> string) list \<Rightarrow> completionOptions \<Rightarrow> fetchResponse option"

text \<open>What the handler does besides answering: the calls of the collaborators, in
  order, and the lines it logs with \<^verbatim>\<open>console.error\<close>.\<close>

datatype event =
    ModerationCall string
  | EmbeddingCall string string
  | RpcCall string matchParams
  | FetchCall string "(string \<times> string) list" completionOptions
  | ConsoleError error

definition logged :: "event \<Rightarrow> 'a \<times> event list \<Rightarrow> 'a \<times> event list" where
  "logged e r = (fst r, e # snd r)"

definition corsHeaders :: "(string \<times> string) list" where
  "corsHeaders =
     [(''Access-Control-Allow-Origin'', ''*''),
      (''Access-Control-Allow-Headers'', ''authorization, x-client-info, apikey, content-type'')]"

definition corsStreamingHeaders :: "(string \<times> string) list" where
  "corsStreamingHeaders = corsHeaders @ [(''Content-Type'', ''text/event-stream'')]"

subsection \<open>The body of the \<^verbatim>\<open>try\<close> block, stage by stage\<close>

text \<open>Lines 126 to 155: the completion request and the streamed response.\<close>

definition generate_completion ::
  "env \<Rightarrow> string \<Rightarrow> string \<Rightarrow> string \<Rightarrow> (error + response) \<times> event list"
where
  "generate_completion e query sanitized contextText =
     (let options = \<lparr>messages = [(''system'', prompt contextText sanitized), (''user'', query)],
                     model = OPENAI_COMPLETIONS_MODEL e,
                     max_tokens = 512, temperature = 0, stream = True\<rparr>;
          init = [(''Authorization'', ''Bearer '' @ OPENAI_API_KEY e),
                  (''Content-Type'', ''application/json'')]
      in logged (FetchCall (OPENAI_COMPLETIONS_ENDPOINT e) init options)
           (case fetch e (OPENAI_COMPLETIONS_ENDPOINT e) init options of
              None \<Rightarrow> (Inl (OtherError ''fetch''), [])
            | Some r \<Rightarrow>
                if \<not> ok r then
                  (case response_json r of
                     None \<Rightarrow> (Inl (OtherError ''SyntaxError''), [])
                   | Some err \<Rightarrow>
                       (Inl (ApplicationError ''Failed to generate completion'' (JsonPayload err)), []))
                else (Inr \<lparr>status = 200, headers = corsStreamingHeaders,
                           body = StreamBody (response_stream r)\<rparr>, [])))"

text \<open>Lines 70 to 103: the similarity search and the context.\<close>

definition match_page_sections ::
  "env \<Rightarrow> string \<Rightarrow> string \<Rightarrow> rat list \<Rightarrow> (error + response) \<times> event list"
where
  "match_page_sections e query sanitized emb =
     (let params = \<lparr>embedding = emb, match_threshold = 78 / 100, match_count = 10,
                    min_content_length = 50\<rparr>
      in logged (RpcCall ''match_page_sections'' params)
           (case rpc e ''match_page_sections'' params of
              None \<Rightarrow> (Inl (OtherError ''rpc''), [])
            | Some r \<Rightarrow>
                if truthy (matchError r) then
                  (Inl (ApplicationError ''Failed to match page sections'' (JsonPayload (matchError r))), [])
                else
                  (case pageSections r of
                     None \<Rightarrow> (Inl (OtherError ''TypeError''), [])
                   | Some sections \<Rightarrow>
                       (case assemble_context (tokenizer_encode e) sections of
                          Inl err \<Rightarrow> (Inl err, [])
                        | Inr contextText \<Rightarrow> generate_completion e query sanitized contextText))))"

text \<open>Lines 59 to 71: the embedding of the question. \<^verbatim>\<open>const [{ embedding }] = ...\<close> throws
  a \<^verbatim>\<open>TypeError\<close> on an empty list.\<close>

definition create_embedding ::
  "env \<Rightarrow> string \<Rightarrow> string \<Rightarrow> (error + response) \<times> event list"
where
  "create_embedding e query sanitized =
     logged (EmbeddingCall (OPENAI_EMBEDDINGS_MODEL e) sanitized)
       (case createEmbedding e (OPENAI_EMBEDDINGS_MODEL e) sanitized of
          None \<Rightarrow> (Inl (OtherError ''createEmbedding''), [])
        | Some embeddingResponse \<Rightarrow>
            if embedding_status embeddingResponse \<noteq> 200 then
              (Inl (ApplicationError ''Failed to create embedding for question''
                      (EmbeddingResponse embeddingResponse)), [])
            else
              (case embedding_data embeddingResponse of
                 [] \<Rightarrow> (Inl (OtherError ''TypeError''), [])
               | emb # _ \<Rightarrow> match_page_sections e query sanitized emb))"

text \<open>Lines 51 to 57: moderation of the normalised query. \<^verbatim>\<open>const [results] = ...\<close> gives
  \<^verbatim>\<open>undefined\<close> on an empty list, and reading \<^verbatim>\<open>results.flagged\<close> then throws.\<close>

definition moderate :: "env \<Rightarrow> string \<Rightarrow> (error + response) \<times> event list" where
  "moderate e query =
     (let sanitized = sanitizedQuery query
      in logged (ModerationCall sanitized)
           (case createModeration e sanitized of
              None \<Rightarrow> (Inl (OtherError ''createModeration''), [])
            | Some results \<Rightarrow>
                (case results of
                   [] \<Rightarrow> (Inl (OtherError ''TypeError''), [])
                 | result # _ \<Rightarrow>
                     if flagged result then
                       (Inl (UserError ''Flagged content''
                               (JObj [(''flagged'', JBool True), (''categories'', categories result)])), [])
                     else create_embedding e query sanitized)))"

text \<open>Lines 40 to 49: the preflight answer and the extraction of the query.\<close>

definition try_block :: "env \<Rightarrow> request \<Rightarrow> (error + response) \<times> event list" where
  "try_block e req =
     (if req_method req = ''OPTIONS'' then
        (Inr \<lparr>status = 200, headers = corsHeaders, body = TextBody ''ok''\<rparr>, [])
      else
        (case map_of (searchParams req) ''query'' of
           None \<Rightarrow> (Inl (UserError ''Missing query in request data'' JUndefined), [])
         | Some query \<Rightarrow>
             if query = [] then (Inl (UserError ''Missing query in request data'' JUndefined), [])
             else moderate e query))"

subsection \<open>The \<^verbatim>\<open>catch\<close> block (lines 157 to 187)\<close>

definition internal_error_response :: response where
  "internal_error_response =
     \<lparr>status = 500, headers = corsHeaders,
      body = JsonBody (JObj [(''error'', JStr ''There was an error processing your request'')])\<rparr>"

definition catch_block :: "error \<Rightarrow> response \<times> event list" where
  "catch_block err =
     (case err of
        UserError message data \<Rightarrow>
          (\<lparr>status = 400, headers = corsHeaders,
            body = JsonBody (JObj [(''error'', JStr message), (''data'', data)])\<rparr>, [])
      | ApplicationError message data \<Rightarrow> (internal_error_response, [ConsoleError err])
      | OtherError description \<Rightarrow> (internal_error_response, [ConsoleError err]))"

text \<open>The handler: the response and everything done on the way.\<close>

definition handler :: "env \<Rightarrow> request \<Rightarrow> response \<times> event list" where
  "handler e req =
     (case try_block e req of
        (Inr res, events) \<Rightarrow> (res, events)
      | (Inl err, events) \<Rightarrow> (fst (catch_block err), events @ snd (catch_block err)))"

text \<open>Reading a response and a trace.\<close>

definition header :: "response \<Rightarrow> string \<Rightarrow> string option" where
  "header res name = map_of (headers res) name"

definition json_property :: "jsval \<Rightarrow> string \<Rightarrow> jsval" where
  "json_property v name =
     (case v of
        JObj properties \<Rightarrow> (case map_of properties name of Some x \<Rightarrow> x | None \<Rightarrow> JUndefined)
      | _ \<Rightarrow> JUndefined)"

definition body_property :: "response \<Rightarrow> string \<Rightarrow> jsval" where
  "body_property res name =
     (case body res of JsonBody v \<Rightarrow> json_property v name | _ \<Rightarrow> JUndefined)"


section \<open>Inputs for the concrete instances\<close>

text \<open>A token counter that makes 500 tokens of every character, and two results of
  the store.\<close>

definition witness_encode :: "string \<Rightarrow> string list" where
  "witness_encode s = replicate (500 * length s) []"

text \<open>A token counter that makes one token of every character.\<close>

definition char_encode :: "string \<Rightarrow> string list" where
  "char_encode s = map (\<lambda>c. [c]) s"

definition witness_sections :: "pageSection list" where
  "witness_sections =
     [\<lparr>content = JStr '' a''\<rparr>, \<lparr>content = JNull\<rparr>, \<lparr>content = JStr ''b''\<rparr>, \<lparr>content = JStr ''c''\<rparr>]"

definition overflow_sections :: "pageSection list" where
  "overflow_sections = [\<lparr>content = JStr ''abc''\<rparr>, \<lparr>content = JStr ''d''\<rparr>]"

text \<open>Collaborators that let a request through to the completion, and variants
  that flag the query or fail to embed it.\<close>

definition demo_env :: env where
  "demo_env =
     \<lparr>OPENAI_API_KEY = ''sk-demo'',
      OPENAI_EMBEDDINGS_MODEL = ''text-embedding-ada-002'',
      OPENAI_COMPLETIONS_MODEL = ''gpt-3.5-turbo'',
      OPENAI_COMPLETIONS_ENDPOINT = ''https://api.openai.com/v1/chat/completions'',
      createModeration = (\<lambda>input. Some [\<lparr>flagged = False, categories = JObj [(''hate'', JBool False)]\<rparr>]),
      createEmbedding = (\<lambda>m input. Some \<lparr>embedding_status = 200, embedding_data = [[1 / 2, 0]]\<rparr>),
      rpc = (\<lambda>name params. Some \<lparr>matchError = JNull, pageSections = Some []\<rparr>),
      tokenizer_encode = char_encode,
      fetch = (\<lambda>url init options. Some \<lparr>ok = True, response_stream = ''data: [DONE]'', response_json = None\<rparr>)\<rparr>"

definition flagging_env :: env where
  "flagging_env = demo_env
     \<lparr>createModeration := (\<lambda>input. Some [\<lparr>flagged = True, categories = JObj [(''violence'', JBool True)]\<rparr>])\<rparr>"

definition failing_embedding_env :: env where
  "failing_embedding_env = demo_env
     \<lparr>createEmbedding := (\<lambda>m input. Some \<lparr>embedding_status = 202, embedding_data = []\<rparr>)\<rparr>"

definition demo_request :: request where
  "demo_request = \<lparr>req_method = ''GET'', searchParams = [(''query'', ''x\<newline>y'')]\<rparr>"

definition no_query_request :: request where
  "no_query_request = \<lparr>req_method = ''GET'', searchParams = [(''q'', ''hello'')]\<rparr>"

definition empty_query_request :: request where
  "empty_query_request = \<lparr>req_method = ''POST'', searchParams = [(''lang'', ''en''), (''query'', [])]\<rparr>"

text \<open>The prompt for an empty context and the question \<^verbatim>\<open>x y\<close>, written out.\<close>

definition demo_prompt :: string where
  \<open>demo_prompt =
     ''You are a very enthusiastic support representative who loves to help people! ''
   @ ''Given the following sections from the product documentation, answer the question ''
   @ ''using only that information, outputted in markdown format. If you are unsure and ''
   @ ''the answer is not explicitly written in the documentation, say ''
   @ ''"Sorry, I don't know how to help with that."''
   @ ''\<newline>\<newline>Context sections:\<newline>\<newline>\<newline>''
   @ ''Question: """\<newline>x y\<newline>"""\<newline>\<newline>''
   @ ''Answer as markdown (including related code snippets if available):''\<close>







text \<open>The header every response is to carry.\<close>

definition allows_any_origin :: "response \<Rightarrow> bool" where
  "allows_any_origin res = (header res ''Access-Control-Allow-Origin'' = Some ''*'')"

section \<open>Facts about trimming\<close>

lemma js_whitespace_LF: "js_whitespace LF"
  by (simp add: js_whitespace_def LF_def)

lemma LF_neq_SP: "LF \<noteq> SP"
  by (simp add: LF_def SP_def)

lemma trim_Nil: "trim [] = []"
  by (simp add: trim_def)

lemma trim_ends:
  assumes "trim s \<noteq> []"
  shows "\<not> js_whitespace (hd (trim s))" and "\<not> js_whitespace (last (trim s))"
proof -
  define t where "t = dropWhile js_whitespace s"
  define u where "u = dropWhile js_whitespace (rev t)"
  have tr: "trim s = rev u"
    by (simp add: trim_def t_def u_def)
  with assms have u: "u \<noteq> []"
    by simp
  then have "\<not> js_whitespace (hd u)"
    unfolding u_def by (metis hd_dropWhile)
  then show "\<not> js_whitespace (last (trim s))"
    using u by (simp add: tr last_rev)
  from u have t: "t \<noteq> []"
    by (auto simp: u_def)
  then have hd_t: "\<not> js_whitespace (hd t)"
    unfolding t_def by (metis hd_dropWhile)
  obtain v where "rev t = v @ u"
    unfolding u_def by (metis takeWhile_dropWhile_id)
  then have "last u = last (rev t)"
    using u by simp
  also have "\<dots> = hd t"
    using t by (simp add: last_rev)
  finally show "\<not> js_whitespace (hd (trim s))"
    using hd_t u by (simp add: tr hd_rev)
qed

lemma trim_fixed:
  assumes "s \<noteq> [] \<Longrightarrow> \<not> js_whitespace (hd s) \<and> \<not> js_whitespace (last s)"
  shows "trim s = s"
proof (cases "s = []")
  case True
  then show ?thesis by (simp add: trim_Nil)
next
  case False
  with assms have h: "\<not> js_whitespace (hd s)" and l: "\<not> js_whitespace (last s)"
    by simp_all
  from False h have "dropWhile js_whitespace s = s"
    by (cases s) simp_all
  moreover from False l have "dropWhile js_whitespace (rev s) = rev s"
    by (cases "rev s") (simp_all add: last_rev [symmetric] hd_rev)
  ultimately show ?thesis
    by (simp add: trim_def)
qed

lemma replaceAll_LF_SP_ends:
  assumes "s \<noteq> []" "\<not> js_whitespace (hd s)" "\<not> js_whitespace (last s)"
  shows "\<not> js_whitespace (hd (replaceAll_LF_SP s)) \<and> \<not> js_whitespace (last (replaceAll_LF_SP s))"
proof -
  from assms have "hd s \<noteq> LF" "last s \<noteq> LF"
    using js_whitespace_LF by auto
  with assms show ?thesis
    by (simp add: replaceAll_LF_SP_def hd_map last_map)
qed

lemma replaceAll_LF_SP_twice: "replaceAll_LF_SP (replaceAll_LF_SP s) = replaceAll_LF_SP s"
  using LF_neq_SP by (simp add: replaceAll_LF_SP_def)

section \<open>Facts about the context loop\<close>

lemma context_loop_included:
  assumes "\<forall>p \<in> set ps. well_typed p"
  shows "\<exists>tc'. context_loop encode ps tc ctx =
           Inr (tc', ctx @ concat (map (\<lambda>p. currentDocumentText (current_text p))
                                      (take (included encode ps tc) ps)))"
  using assms
proof (induction ps arbitrary: tc ctx)
  case Nil
  then show ?case by simp
next
  case (Cons p ps)
  from Cons.prems obtain doc where doc: "currentDocument p = JStr doc"
    by (auto simp: well_typed_def split: jsval.splits)
  then have ct: "current_text p = doc"
    by (simp add: current_text_def)
  show ?case
  proof (cases "tc + length (encode doc) \<ge> max_tokens_context")
    case True
    then show ?thesis
      by (simp add: doc ct section_tokens_def)
  next
    case False
    from Cons.prems have "\<forall>q \<in> set ps. well_typed q"
      by simp
    from Cons.IH [OF this, of "tc + length (encode doc)" "ctx @ currentDocumentText doc"]
    show ?thesis
      using False by (simp add: doc ct section_tokens_def)
  qed
qed

lemma cumulative_0: "cumulative encode ps 0 = 0"
  by (simp add: cumulative_def)

lemma cumulative_Cons_Suc:
  "cumulative encode (p # ps) (Suc j) = section_tokens encode p + cumulative encode ps j"
  by (simp add: cumulative_def)

lemma included_le_length: "included encode ps tc \<le> length ps"
  by (induction ps arbitrary: tc) auto

lemma included_under:
  "1 \<le> j \<Longrightarrow> j \<le> included encode ps tc \<Longrightarrow> tc + cumulative encode ps j < max_tokens_context"
proof (induction ps arbitrary: tc j)
  case Nil
  then show ?case by simp
next
  case (Cons p ps)
  from Cons.prems have small: "tc + section_tokens encode p < max_tokens_context"
    by (auto split: if_splits)
  from Cons.prems obtain i where j: "j = Suc i"
    by (cases j) auto
  show ?case
  proof (cases i)
    case 0
    with small show ?thesis
      by (simp add: j cumulative_Cons_Suc cumulative_0)
  next
    case (Suc i')
    with Cons.prems small j
    have "i \<le> included encode ps (tc + section_tokens encode p)" "1 \<le> i"
      by auto
    from Cons.IH [OF this(2) this(1)] show ?thesis
      by (simp add: j cumulative_Cons_Suc add.assoc)
  qed
qed

lemma included_next_over:
  "included encode ps tc < length ps \<Longrightarrow>
     tc + cumulative encode ps (Suc (included encode ps tc)) \<ge> max_tokens_context"
proof (induction ps arbitrary: tc)
  case Nil
  then show ?case by simp
next
  case (Cons p ps)
  show ?case
  proof (cases "tc + section_tokens encode p \<ge> max_tokens_context")
    case True
    then show ?thesis
      by (simp add: cumulative_Cons_Suc cumulative_0)
  next
    case False
    with Cons.prems have "included encode ps (tc + section_tokens encode p) < length ps"
      by simp
    from Cons.IH [OF this] False show ?thesis
      by (simp add: cumulative_Cons_Suc add.assoc)
  qed
qed

lemma cumulative_mono: "i \<le> j \<Longrightarrow> cumulative encode ps i \<le> cumulative encode ps j"
proof -
  assume "i \<le> j"
  then have "take j ps = take i ps @ take (j - i) (drop i ps)"
    by (metis le_add_diff_inverse take_add)
  then show ?thesis
    by (simp add: cumulative_def)
qed

lemma stays_under_iff:
  "stays_under encode ps k \<longleftrightarrow> (\<forall>j. 1 \<le> j \<and> j \<le> k \<longrightarrow> cumulative encode ps j < max_tokens_context)"
  by (auto simp: stays_under_def list_all_iff)

lemma set_prefix_lengths:
  "set (prefix_lengths_under encode ps) = {k. k \<le> length ps \<and> stays_under encode ps k}"
  unfolding prefix_lengths_under_def by (auto simp del: upt_Suc)

lemma Max_stays_under:
  "Max (set (prefix_lengths_under encode ps)) = included encode ps 0"
proof (rule Max_eqI)
  show "finite (set (prefix_lengths_under encode ps))"
    by simp
next
  fix y
  assume "y \<in> set (prefix_lengths_under encode ps)"
  then have y: "y \<le> length ps" "stays_under encode ps y"
    by (simp_all add: set_prefix_lengths)
  show "y \<le> included encode ps 0"
  proof (rule ccontr)
    assume "\<not> y \<le> included encode ps 0"
    then have lt: "Suc (included encode ps 0) \<le> y"
      by simp
    with y(1) have "included encode ps 0 < length ps"
      by simp
    from included_next_over [OF this]
    have "cumulative encode ps (Suc (included encode ps 0)) \<ge> max_tokens_context"
      by simp
    moreover from y(2) lt have "cumulative encode ps (Suc (included encode ps 0)) < max_tokens_context"
      by (simp add: stays_under_iff)
    ultimately show False
      by simp
  qed
next
  have "stays_under encode ps (included encode ps 0)"
    using included_under [of _ encode ps 0] by (simp add: stays_under_iff)
  then show "included encode ps 0 \<in> set (prefix_lengths_under encode ps)"
    using included_le_length [of encode ps 0] by (simp add: set_prefix_lengths)
qed

lemma assemble_context_spec:
  assumes "\<forall>p \<in> set ps. well_typed p"
  shows "assemble_context encode ps = Inr (spec_context encode ps)"
proof -
  from context_loop_included [OF assms, of encode 0 "[]"]
  show ?thesis
    by (auto simp: assemble_context_def spec_context_def longest_prefix_under_def Max_stays_under)
qed

lemma length_longest_prefix_under:
  "length (longest_prefix_under encode ps) = included encode ps 0"
  using included_le_length [of encode ps 0]
  by (simp add: longest_prefix_under_def Max_stays_under)

text \<open>
  C1. For every sequence of retrieved sections (each with a string or falsy content)
  and every token-counting function, the assembled context is the concatenation, over
  the longest prefix of sections whose cumulative token count stays under 1500, of the
  trimmed content followed by the separator. A section whose inclusion brings the
  cumulative count to 1500 or more is left out whole, and when the first section alone
  reaches the cap the context is the empty string and nothing is thrown.
\<close>

theorem assemble_context_longest_prefix:
  assumes "list_all well_typed ps"
  shows "assemble_context encode ps = Inr (spec_context encode ps)
       \<and> (\<forall>i < length ps. cumulative encode ps (Suc i) \<ge> 1500
             \<longrightarrow> length (longest_prefix_under encode ps) \<le> i)
       \<and> (ps \<noteq> [] \<and> section_tokens encode (hd ps) \<ge> 1500 \<longrightarrow> assemble_context encode ps = Inr [])"
proof (intro conjI allI impI)
  from assms have wt: "\<forall>p \<in> set ps. well_typed p"
    by (simp add: list_all_iff)
  show "assemble_context encode ps = Inr (spec_context encode ps)"
    by (rule assemble_context_spec [OF wt])
  {
    fix i
    assume i: "i < length ps" and over: "cumulative encode ps (Suc i) \<ge> 1500"
    show "length (longest_prefix_under encode ps) \<le> i"
    proof (rule ccontr)
      assume "\<not> length (longest_prefix_under encode ps) \<le> i"
      then have "Suc i \<le> included encode ps 0"
        by (simp add: length_longest_prefix_under)
      from included_under [OF _ this] over show False
        by (simp add: max_tokens_context_def)
    qed
  }
  {
    assume h: "ps \<noteq> [] \<and> section_tokens encode (hd ps) \<ge> 1500"
    then obtain p qs where ps: "ps = p # qs"
      by (cases ps) auto
    with h have "included encode ps 0 = 0"
      by (simp add: max_tokens_context_def)
    with context_loop_included [OF wt, of encode 0 "[]"]
    show "assemble_context encode ps = Inr []"
      by (auto simp: assemble_context_def)
  }
qed

theorem assemble_context_longest_prefix_witness:
  "list_all well_typed witness_sections
   \<and> assemble_context witness_encode witness_sections = Inr ''a\<newline>---\<newline>\<newline>---\<newline>''
   \<and> cumulative witness_encode witness_sections (Suc 2) \<ge> 1500
   \<and> length (longest_prefix_under witness_encode witness_sections) \<le> 2
   \<and> list_all well_typed overflow_sections
   \<and> overflow_sections \<noteq> []
   \<and> section_tokens witness_encode (hd overflow_sections) \<ge> 1500
   \<and> assemble_context witness_encode overflow_sections = Inr []"
proof -
  have wt: "list_all well_typed witness_sections"
    by (simp add: witness_sections_def well_typed_def currentDocument_def)
  have sc: "spec_context witness_encode witness_sections = ''a\<newline>---\<newline>\<newline>---\<newline>''"
    by code_simp
  have len: "(2::nat) < length witness_sections"
    by (simp add: witness_sections_def)
  have cum: "cumulative witness_encode witness_sections (Suc 2) \<ge> 1500"
    by code_simp
  have wt': "list_all well_typed overflow_sections"
    by (simp add: overflow_sections_def well_typed_def currentDocument_def)
  have over: "overflow_sections \<noteq> [] \<and> section_tokens witness_encode (hd overflow_sections) \<ge> 1500"
    by (simp add: overflow_sections_def section_tokens_def current_text_def currentDocument_def
        witness_encode_def)
  note t = assemble_context_longest_prefix [OF wt, of witness_encode]
  from t sc have e: "assemble_context witness_encode witness_sections = Inr ''a\<newline>---\<newline>\<newline>---\<newline>''"
    by simp
  from t have "\<forall>i < length witness_sections. cumulative witness_encode witness_sections (Suc i) \<ge> 1500
      \<longrightarrow> length (longest_prefix_under witness_encode witness_sections) \<le> i"
    by blast
  with len cum have l: "length (longest_prefix_under witness_encode witness_sections) \<le> 2"
    by blast
  from assemble_context_longest_prefix [OF wt', of witness_encode] over
  have e': "assemble_context witness_encode overflow_sections = Inr []"
    by blast
  from wt e cum l wt' over e' show ?thesis
    by blast
qed

text \<open>
  C10. A section whose content is missing, null or otherwise falsy does not make the
  loop fail: its content counts as the empty string, it adds no token to the running
  count (the tokenizer gives no token for the empty text, as the GPT-3 tokenizer does),
  and, the cap not being reached, only the bare separator is appended to the context.
\<close>

theorem context_loop_falsy_content:
  assumes "\<not> truthy (content p)" and "encode [] = []"
  shows "context_loop encode (p # ps) tokenCount contextText =
           (if tokenCount \<ge> 1500 then Inr (tokenCount, contextText)
            else context_loop encode ps tokenCount (contextText @ ''\<newline>---\<newline>''))"
  using assms
  by (simp add: currentDocument_def currentDocumentText_def trim_Nil separator_def
      max_tokens_context_def)

theorem context_loop_falsy_content_witness:
  "\<not> truthy (content \<lparr>content = JNull\<rparr>) \<and> char_encode [] = []
   \<and> context_loop char_encode [\<lparr>content = JNull\<rparr>, \<lparr>content = JStr ''ab ''\<rparr>] 7 ''x''
       = Inr (10, ''x\<newline>---\<newline>ab\<newline>---\<newline>'')"
proof -
  have a: "\<not> truthy (content \<lparr>content = JNull\<rparr>)"
    by simp
  have b: "char_encode [] = []"
    by (simp add: char_encode_def)
  have c: "context_loop char_encode [\<lparr>content = JStr ''ab ''\<rparr>] 7 ''x\<newline>---\<newline>''
             = Inr (10, ''x\<newline>---\<newline>ab\<newline>---\<newline>'')"
    by (simp add: currentDocument_def currentDocumentText_def separator_def
        max_tokens_context_def trim_def js_whitespace_def char_encode_def)
  from context_loop_falsy_content [of "\<lparr>content = JNull\<rparr>" char_encode
      "[\<lparr>content = JStr ''ab ''\<rparr>]" 7 "''x''", OF a b]
  show ?thesis
    using a b c by simp
qed

section \<open>Facts about the template tags\<close>



















declare indent_matches.simps(2) [simp del]






















lemma strip1_short: "length l < n \<Longrightarrow> strip1 n l = l"
  by (simp add: strip1_def)
















text \<open>The condition on carriage returns is needed: the pattern of the indentation
  takes a CR for a line start, so for the question \<^verbatim>\<open>a\r b\<close> the narrowest
  indentation is the one blank after the CR, one column is cut from every line, and
  the prompt holds \<^verbatim>\<open>a\rb\<close>.\<close>

lemma prompt_carriage_return:
  "\<not> sublist (''a'' @ [CR] @ '' b'') (prompt [] (sanitizedQuery (''a'' @ [CR] @ '' b'')))"
  by code_simp

section \<open>The handler's answers\<close>

text \<open>
  C3. A request whose method is OPTIONS is answered at once with status 200, the CORS
  headers and no call of a collaborator. The comment above the branch announces an
  empty response and the claim an empty body; the body the code sends is the text
  \<^verbatim>\<open>ok\<close>.
\<close>

theorem handler_OPTIONS_body:
  "handler e \<lparr>req_method = ''OPTIONS'', searchParams = params\<rparr> =
     (\<lparr>status = 200, headers = corsHeaders, body = TextBody ''ok''\<rparr>, [])"
  by (simp add: handler_def try_block_def)

text \<open>
  C5. A request other than OPTIONS whose query string has no \<^verbatim>\<open>query\<close> parameter is
  answered with status 400 and a JSON body whose \<^verbatim>\<open>error\<close> is
  \<^verbatim>\<open>Missing query in request data\<close>; no collaborator is called.
\<close>

theorem handler_missing_query:
  assumes "req_method req \<noteq> ''OPTIONS''" and "map_of (searchParams req) ''query'' = None"
  shows "status (fst (handler e req)) = 400
       \<and> body_property (fst (handler e req)) ''error'' = JStr ''Missing query in request data''
       \<and> snd (handler e req) = []"
  using assms
  by (simp add: handler_def try_block_def catch_block_def body_property_def json_property_def)

theorem handler_missing_query_witness:
  "req_method no_query_request \<noteq> ''OPTIONS''
   \<and> map_of (searchParams no_query_request) ''query'' = None
   \<and> status (fst (handler demo_env no_query_request)) = 400
   \<and> body_property (fst (handler demo_env no_query_request)) ''error''
       = JStr ''Missing query in request data''
   \<and> snd (handler demo_env no_query_request) = []"
proof -
  have a: "req_method no_query_request \<noteq> ''OPTIONS''"
    by (simp add: no_query_request_def)
  have b: "map_of (searchParams no_query_request) ''query'' = None"
    by (simp add: no_query_request_def)
  from handler_missing_query [OF a b, of demo_env] a b show ?thesis
    by blast
qed

text \<open>
  C9. A request other than OPTIONS whose \<^verbatim>\<open>query\<close> parameter is present and empty is
  treated exactly as one without the parameter: the same answer, status 400 with the
  error \<^verbatim>\<open>Missing query in request data\<close>, and no call of a collaborator.
\<close>

theorem handler_empty_query:
  assumes "req_method req \<noteq> ''OPTIONS''" and "map_of (searchParams req) ''query'' = Some []"
  shows "handler e req
           = handler e (req\<lparr>searchParams := filter (\<lambda>p. fst p \<noteq> ''query'') (searchParams req)\<rparr>)
       \<and> status (fst (handler e req)) = 400
       \<and> body_property (fst (handler e req)) ''error'' = JStr ''Missing query in request data''
       \<and> snd (handler e req) = []"
proof -
  have "map_of (filter (\<lambda>p. fst p \<noteq> ''query'') (searchParams req)) ''query'' = None"
    by (auto simp: map_of_eq_None_iff)
  with assms show ?thesis
    by (simp add: handler_def try_block_def catch_block_def body_property_def json_property_def)
qed

theorem handler_empty_query_witness:
  "req_method empty_query_request \<noteq> ''OPTIONS''
   \<and> map_of (searchParams empty_query_request) ''query'' = Some []
   \<and> handler demo_env empty_query_request
       = handler demo_env \<lparr>req_method = ''POST'', searchParams = [(''lang'', ''en'')]\<rparr>
   \<and> status (fst (handler demo_env empty_query_request)) = 400
   \<and> snd (handler demo_env empty_query_request) = []"
proof -
  have a: "req_method empty_query_request \<noteq> ''OPTIONS''"
    by (simp add: empty_query_request_def)
  have b: "map_of (searchParams empty_query_request) ''query'' = Some []"
    by (simp add: empty_query_request_def)
  have c: "empty_query_request
             \<lparr>searchParams := filter (\<lambda>p. fst p \<noteq> ''query'') (searchParams empty_query_request)\<rparr>
           = \<lparr>req_method = ''POST'', searchParams = [(''lang'', ''en'')]\<rparr>"
    by (simp add: empty_query_request_def)
  from handler_empty_query [OF a b, of demo_env, unfolded c] a b show ?thesis
    by blast
qed

text \<open>
  C4. When the first verdict of the moderation service flags the query, the handler
  stops: it answers with status 400 and a JSON body whose \<^verbatim>\<open>data.flagged\<close> is true and
  whose \<^verbatim>\<open>data.categories\<close> are the categories of the verdict, and the moderation call
  is the only call made: no embedding, no retrieval, no completion.
\<close>

theorem handler_flagged:
  assumes "req_method req \<noteq> ''OPTIONS''"
    and "map_of (searchParams req) ''query'' = Some query" and "query \<noteq> []"
    and "createModeration e (sanitizedQuery query) = Some (verdict # others)"
    and "flagged verdict"
  shows "status (fst (handler e req)) = 400
       \<and> json_property (body_property (fst (handler e req)) ''data'') ''flagged'' = JBool True
       \<and> json_property (body_property (fst (handler e req)) ''data'') ''categories'' = categories verdict
       \<and> snd (handler e req) = [ModerationCall (sanitizedQuery query)]"
  using assms
  by (simp add: handler_def try_block_def moderate_def logged_def catch_block_def
      body_property_def json_property_def Let_def)

theorem handler_flagged_witness:
  "req_method demo_request \<noteq> ''OPTIONS''
   \<and> map_of (searchParams demo_request) ''query'' = Some ''x\<newline>y''
   \<and> ''x\<newline>y'' \<noteq> []
   \<and> createModeration flagging_env (sanitizedQuery ''x\<newline>y'')
       = Some (\<lparr>flagged = True, categories = JObj [(''violence'', JBool True)]\<rparr> # [])
   \<and> flagged \<lparr>flagged = True, categories = JObj [(''violence'', JBool True)]\<rparr>
   \<and> status (fst (handler flagging_env demo_request)) = 400
   \<and> json_property (body_property (fst (handler flagging_env demo_request)) ''data'') ''categories''
       = JObj [(''violence'', JBool True)]
   \<and> snd (handler flagging_env demo_request) = [ModerationCall (sanitizedQuery ''x\<newline>y'')]"
proof -
  have a: "req_method demo_request \<noteq> ''OPTIONS''"
    by (simp add: demo_request_def)
  have b: "map_of (searchParams demo_request) ''query'' = Some ''x\<newline>y''"
    by (simp add: demo_request_def)
  have c: "''x\<newline>y'' \<noteq> []"
    by simp
  have d: "createModeration flagging_env (sanitizedQuery ''x\<newline>y'')
             = Some (\<lparr>flagged = True, categories = JObj [(''violence'', JBool True)]\<rparr> # [])"
    by (simp add: flagging_env_def)
  have f: "flagged \<lparr>flagged = True, categories = JObj [(''violence'', JBool True)]\<rparr>"
    by simp
  from handler_flagged [OF a b c d f] a b c d f show ?thesis
    by simp
qed

text \<open>
  C6. When the embedding service answers with a status other than 200, the handler
  answers with status 500 and the fixed JSON body
  \<^verbatim>\<open>{error: "There was an error processing your request"}\<close>: the answer is the same
  whatever the provider returned, so nothing of the provider's response is in it.
\<close>

theorem handler_embedding_failed:
  assumes "req_method req \<noteq> ''OPTIONS''"
    and "map_of (searchParams req) ''query'' = Some query" and "query \<noteq> []"
    and "createModeration e (sanitizedQuery query) = Some (verdict # others)"
    and "\<not> flagged verdict"
    and "createEmbedding e (OPENAI_EMBEDDINGS_MODEL e) (sanitizedQuery query) = Some r"
    and "embedding_status r \<noteq> 200"
  shows "fst (handler e req) =
           \<lparr>status = 500, headers = corsHeaders,
            body = JsonBody (JObj [(''error'', JStr ''There was an error processing your request'')])\<rparr>"
  using assms
  by (simp add: handler_def try_block_def moderate_def create_embedding_def logged_def
      catch_block_def internal_error_response_def Let_def)

theorem handler_embedding_failed_witness:
  "req_method demo_request \<noteq> ''OPTIONS''
   \<and> map_of (searchParams demo_request) ''query'' = Some ''x\<newline>y''
   \<and> ''x\<newline>y'' \<noteq> []
   \<and> createModeration failing_embedding_env (sanitizedQuery ''x\<newline>y'')
       = Some (\<lparr>flagged = False, categories = JObj [(''hate'', JBool False)]\<rparr> # [])
   \<and> \<not> flagged \<lparr>flagged = False, categories = JObj [(''hate'', JBool False)]\<rparr>
   \<and> createEmbedding failing_embedding_env (OPENAI_EMBEDDINGS_MODEL failing_embedding_env)
         (sanitizedQuery ''x\<newline>y'')
       = Some \<lparr>embedding_status = 202, embedding_data = []\<rparr>
   \<and> embedding_status \<lparr>embedding_status = 202, embedding_data = []\<rparr> \<noteq> 200
   \<and> fst (handler failing_embedding_env demo_request) =
        \<lparr>status = 500, headers = corsHeaders,
         body = JsonBody (JObj [(''error'', JStr ''There was an error processing your request'')])\<rparr>"
proof -
  have a: "req_method demo_request \<noteq> ''OPTIONS''"
    by (simp add: demo_request_def)
  have b: "map_of (searchParams demo_request) ''query'' = Some ''x\<newline>y''"
    by (simp add: demo_request_def)
  have c: "''x\<newline>y'' \<noteq> []"
    by simp
  have d: "createModeration failing_embedding_env (sanitizedQuery ''x\<newline>y'')
             = Some (\<lparr>flagged = False, categories = JObj [(''hate'', JBool False)]\<rparr> # [])"
    by (simp add: failing_embedding_env_def demo_env_def)
  have f: "\<not> flagged \<lparr>flagged = False, categories = JObj [(''hate'', JBool False)]\<rparr>"
    by simp
  have g: "createEmbedding failing_embedding_env (OPENAI_EMBEDDINGS_MODEL failing_embedding_env)
             (sanitizedQuery ''x\<newline>y'')
           = Some \<lparr>embedding_status = 202, embedding_data = []\<rparr>"
    by (simp add: failing_embedding_env_def)
  have h: "embedding_status \<lparr>embedding_status = 202, embedding_data = []\<rparr> \<noteq> 200"
    by simp
  from handler_embedding_failed [OF a b c d f g h] a b c d f g h show ?thesis
    by blast
qed

subsection \<open>The CORS header\<close>

lemma header_cors: "map_of corsHeaders ''Access-Control-Allow-Origin'' = Some ''*''"
  by (simp add: corsHeaders_def)

lemma header_cors_streaming: "map_of corsStreamingHeaders ''Access-Control-Allow-Origin'' = Some ''*''"
  by (simp add: corsStreamingHeaders_def corsHeaders_def)

lemma catch_block_cors: "allows_any_origin (fst (catch_block err))"
  by (cases err)
    (simp_all add: catch_block_def internal_error_response_def allows_any_origin_def header_def header_cors)

lemma generate_completion_cors:
  "fst (generate_completion e q s c) = Inr res \<Longrightarrow> allows_any_origin res"
  by (auto simp: generate_completion_def logged_def allows_any_origin_def header_def
      header_cors_streaming Let_def split: option.splits if_splits)

lemma match_page_sections_cors:
  "fst (match_page_sections e q s emb) = Inr res \<Longrightarrow> allows_any_origin res"
  by (auto simp: match_page_sections_def logged_def Let_def
      split: option.splits if_splits sum.splits dest: generate_completion_cors)

lemma create_embedding_cors:
  "fst (create_embedding e q s) = Inr res \<Longrightarrow> allows_any_origin res"
  by (auto simp: create_embedding_def logged_def
      split: option.splits if_splits list.splits dest: match_page_sections_cors)

lemma moderate_cors:
  "fst (moderate e q) = Inr res \<Longrightarrow> allows_any_origin res"
  by (auto simp: moderate_def logged_def Let_def
      split: option.splits if_splits list.splits dest: create_embedding_cors)

lemma try_block_cors:
  "fst (try_block e req) = Inr res \<Longrightarrow> allows_any_origin res"
  by (auto simp: try_block_def allows_any_origin_def header_def header_cors
      split: option.splits if_splits dest: moderate_cors)

text \<open>
  C7. Every response of the handler carries the header
  \<^verbatim>\<open>Access-Control-Allow-Origin: *\<close>: the streamed answer, the 400 of a user error,
  the 500 of an application or unexpected error, and the answer to OPTIONS.
\<close>

theorem handler_cors:
  "header (fst (handler e req)) ''Access-Control-Allow-Origin'' = Some ''*''"
proof (cases "try_block e req")
  case (Pair r events)
  show ?thesis
  proof (cases r)
    case (Inl err)
    with Pair catch_block_cors [of err] show ?thesis
      by (simp add: handler_def allows_any_origin_def)
  next
    case (Inr res)
    with Pair try_block_cors [of e req res] show ?thesis
      by (simp add: handler_def allows_any_origin_def)
  qed
qed

subsection \<open>The messages of the completion request\<close>







lemma prompt_demo: "prompt [] ''x y'' = demo_prompt"
  by code_simp








section \<open>Normalisation of the query\<close>

text \<open>
  C8. The normalisation of the query (trim, then every newline replaced by a space) is
  idempotent: applied to a string that is already normalised it changes nothing.
\<close>

theorem sanitizedQuery_idempotent:
  "sanitizedQuery (sanitizedQuery s) = sanitizedQuery s"
proof -
  let ?n = "replaceAll_LF_SP (trim s)"
  have "trim ?n = ?n"
  proof (rule trim_fixed)
    assume "?n \<noteq> []"
    then have "trim s \<noteq> []"
      by (simp add: replaceAll_LF_SP_def)
    then show "\<not> js_whitespace (hd ?n) \<and> \<not> js_whitespace (last ?n)"
      using trim_ends [of s] replaceAll_LF_SP_ends [of "trim s"] by simp
  qed
  then show ?thesis
    by (simp add: sanitizedQuery_def replaceAll_LF_SP_twice)
qed

end
